theory Spec2Isabelle
  imports Complex_Main
begin

section \<open>Brier scores of rampwf: the model\<close>

text \<open>
  The module \<^verbatim>\<open>rampwf/score_types/brier_score.py\<close> holds four scorers: BrierScore,
  BrierSkillScore, BrierScoreReliability and BrierScoreResolution. Each has a
  \<^verbatim>\<open>score_function\<close> (index selection, the dimension check, then the formula) and a
  \<^verbatim>\<open>__call__\<close> (the formula on two aligned arrays).

  Numbers. The arrays the caller passes hold finite numbers and are lists of reals. A
  float64 value the code computes is an \<open>npfloat\<close>: a real, one of the two infinities or
  not-a-number, since the divisions of the code can divide by zero. Arithmetic on the finite
  values is exact: rounding, overflow and underflow of float64 are outside the model, and so
  is the sign of zero (a zero divisor is taken as +0, which is what a count, a mean of
  squares and the product climo * (1 - climo) of outcomes in {0,1} give).
\<close>

subsection \<open>Errors\<close>

text \<open>
  IndexError, ValueError: raised by numpy (an index out of range or a mask of the wrong
  length; operands that do not broadcast or bin edges that decrease). ZeroDivisionError:
  raised by Python's own float division. DimensionMismatch: the failure the dimension
  check of the base class signals.
\<close>

datatype error = IndexError | ValueError | ZeroDivisionError | DimensionMismatch

subsection \<open>float64 values and numpy's arithmetic\<close>

datatype npfloat = Fin real | PInf | NInf | NaN

fun np_neg :: "npfloat \<Rightarrow> npfloat" where
  "np_neg (Fin a) = Fin (- a)"
| "np_neg PInf = NInf"
| "np_neg NInf = PInf"
| "np_neg NaN = NaN"

fun np_add :: "npfloat \<Rightarrow> npfloat \<Rightarrow> npfloat" where
  "np_add NaN y = NaN"
| "np_add x NaN = NaN"
| "np_add (Fin a) (Fin b) = Fin (a + b)"
| "np_add PInf NInf = NaN"
| "np_add NInf PInf = NaN"
| "np_add PInf y = PInf"
| "np_add NInf y = NInf"
| "np_add (Fin a) y = y"

definition np_sub :: "npfloat \<Rightarrow> npfloat \<Rightarrow> npfloat" where
  "np_sub x y = np_add x (np_neg y)"

text \<open>An infinity times a finite number: not-a-number at zero, else the sign decides.\<close>

definition inf_times :: "bool \<Rightarrow> real \<Rightarrow> npfloat" where
  "inf_times positive a =
     (if a = 0 then NaN else if (0 < a) = positive then PInf else NInf)"

fun np_mul :: "npfloat \<Rightarrow> npfloat \<Rightarrow> npfloat" where
  "np_mul NaN y = NaN"
| "np_mul x NaN = NaN"
| "np_mul (Fin a) (Fin b) = Fin (a * b)"
| "np_mul (Fin a) PInf = inf_times True a"
| "np_mul (Fin a) NInf = inf_times False a"
| "np_mul PInf (Fin b) = inf_times True b"
| "np_mul NInf (Fin b) = inf_times False b"
| "np_mul PInf PInf = PInf"
| "np_mul NInf NInf = PInf"
| "np_mul PInf NInf = NInf"
| "np_mul NInf PInf = NInf"

text \<open>
  numpy's true division: x / 0 is an infinity of the sign of x (a warning, not an error),
  0 / 0 is not-a-number.
\<close>

fun np_div :: "npfloat \<Rightarrow> npfloat \<Rightarrow> npfloat" where
  "np_div NaN y = NaN"
| "np_div x NaN = NaN"
| "np_div (Fin a) (Fin b) =
     (if b = 0 then (if a = 0 then NaN else if 0 < a then PInf else NInf) else Fin (a / b))"
| "np_div (Fin a) y = Fin 0"
| "np_div PInf (Fin b) = (if 0 \<le> b then PInf else NInf)"
| "np_div NInf (Fin b) = (if 0 \<le> b then NInf else PInf)"
| "np_div x y = NaN"

text \<open>\<^verbatim>\<open>x ** 2\<close>\<close>

definition np_sq :: "npfloat \<Rightarrow> npfloat" where
  "np_sq x = np_mul x x"

text \<open>\<^verbatim>\<open>np.sum\<close>, \<^verbatim>\<open>np.mean\<close> (the sum divided by the count: not-a-number on an
  empty array) and \<^verbatim>\<open>np.nansum\<close> (not-a-number entries count as zero).\<close>

fun np_sum :: "npfloat list \<Rightarrow> npfloat" where
  "np_sum [] = Fin 0"
| "np_sum (x # xs) = np_add x (np_sum xs)"

definition np_mean :: "npfloat list \<Rightarrow> npfloat" where
  "np_mean xs = np_div (np_sum xs) (Fin (real (length xs)))"

fun nan_to_zero :: "npfloat \<Rightarrow> npfloat" where
  "nan_to_zero NaN = Fin 0"
| "nan_to_zero x = x"

definition np_nansum :: "npfloat list \<Rightarrow> npfloat" where
  "np_nansum xs = np_sum (map nan_to_zero xs)"

text \<open>
  An elementwise operation on two one-dimensional arrays broadcasts: equal lengths pair
  up, an array of length one is stretched, anything else is a ValueError.
\<close>

definition broadcast2 :: "('a \<Rightarrow> 'b \<Rightarrow> 'c) \<Rightarrow> 'a list \<Rightarrow> 'b list \<Rightarrow> error + 'c list" where
  "broadcast2 f xs ys =
     (if length xs = length ys then Inr (map2 f xs ys)
      else if length xs = 1 then Inr (map (f (hd xs)) ys)
      else if length ys = 1 then Inr (map (\<lambda>x. f x (hd ys)) xs)
      else Inl ValueError)"

text \<open>\<^verbatim>\<open>a[mask]\<close>: the mask must be as long as the array.\<close>

definition mask_select :: "'a list \<Rightarrow> bool list \<Rightarrow> error + 'a list" where
  "mask_select a m =
     (if length m \<noteq> length a then Inl IndexError
      else Inr (map fst (filter snd (zip a m))))"

text \<open>
  \<^verbatim>\<open>np.arange(start, stop, step)\<close>: ceil((stop - start) / step) values from start in steps
  of step.
\<close>

definition np_arange :: "real \<Rightarrow> real \<Rightarrow> real \<Rightarrow> real list" where
  "np_arange start stop step =
     map (\<lambda>i. start + real i * step) [0 ..< nat \<lceil>(stop - start) / step\<rceil>]"

text \<open>
  \<^verbatim>\<open>np.histogram(a, bins=edges)[0]\<close> for an array of edges: one count per pair of
  consecutive edges; every bin is half-open [lo, hi) but the last, which is closed
  [lo, hi]. Edges that decrease somewhere are a ValueError.
\<close>

fun bin_counts :: "real list \<Rightarrow> real list \<Rightarrow> nat list" where
  "bin_counts a [lo, hi] = [length (filter (\<lambda>x. lo \<le> x \<and> x \<le> hi) a)]"
| "bin_counts a (lo # hi # es) =
     length (filter (\<lambda>x. lo \<le> x \<and> x < hi) a) # bin_counts a (hi # es)"
| "bin_counts a es = []"

fun increasing :: "real list \<Rightarrow> bool" where
  "increasing (lo # hi # es) = (lo \<le> hi \<and> increasing (hi # es))"
| "increasing es = True"

definition np_histogram :: "real list \<Rightarrow> real list \<Rightarrow> error + nat list" where
  "np_histogram a edges =
     (if increasing edges then Inr (bin_counts a edges) else Inl ValueError)"

subsection \<open>Index selection\<close>

text \<open>
  \<^verbatim>\<open>valid_indexes\<close> is a slice (start and stop, each possibly None, step one) or an
  array of integer indices. A slice clamps its bounds to the array; an index array raises
  IndexError out of range; a negative index counts from the end in both.
\<close>

datatype valid_indexes = Slice "int option" "int option" | Index_array "int list"

definition slice_bound :: "nat \<Rightarrow> int \<Rightarrow> nat" where
  "slice_bound n i = (if i < 0 then nat (max 0 (int n + i)) else min (nat i) n)"

fun select :: "'a list \<Rightarrow> valid_indexes \<Rightarrow> error + 'a list" where
  "select xs (Slice start stop) =
     (let lo = (case start of None \<Rightarrow> 0 | Some i \<Rightarrow> slice_bound (length xs) i);
          hi = (case stop of None \<Rightarrow> length xs | Some i \<Rightarrow> slice_bound (length xs) i)
      in Inr (take (hi - lo) (drop lo xs)))"
| "select xs (Index_array idx) =
     (let n = int (length xs) in
      if list_all (\<lambda>i. - n \<le> i \<and> i < n) idx
      then Inr (map (\<lambda>i. xs ! nat (if i < 0 then n + i else i)) idx)
      else Inl IndexError)"

subsection \<open>Ground truths, predictions and the dimension check\<close>

text \<open>
  Modelled from the spec: the classes of the ground truths and of the predictions are not
  in this module. The spec's data model: the predictions are an ordered sequence of forecast
  probability pairs, one pair per instance (read as \<^verbatim>\<open>y_pred\<close>, whose column 1 is the
  probability of the second class), and the ground truths an ordered sequence of outcome
  indicators (read as \<^verbatim>\<open>y_pred_label_index\<close>).
\<close>

record predictions =
  y_pred :: "(real \<times> real) list"

record ground_truths =
  y_pred_label_index :: "int list"

text \<open>
  Modelled from the spec: \<^verbatim>\<open>check_y_pred_dimensions\<close> is a method of the base class
  \<^verbatim>\<open>BaseScoreType\<close>, which is not in this module. The spec: after selection the two
  sequences must have equal length; mismatched lengths signal a dimension-mismatch failure.
\<close>

definition check_y_pred_dimensions :: "'a list \<Rightarrow> 'b list \<Rightarrow> error + unit" where
  "check_y_pred_dimensions y_true y_proba =
     (if length y_true \<noteq> length y_proba then Inl DimensionMismatch else Inr ())"

text \<open>
  The four \<^verbatim>\<open>score_function\<close> methods have the same body, up to the \<^verbatim>\<open>__call__\<close> of
  their class: lines 23-28, 52-57, 87-92 and 125-130. \<open>score_protocol\<close> is that body with
  the \<^verbatim>\<open>__call__\<close> as a parameter.
\<close>

definition score_protocol ::
  "(real list \<Rightarrow> real list \<Rightarrow> error + npfloat) \<Rightarrow>
   ground_truths \<Rightarrow> predictions \<Rightarrow> valid_indexes option \<Rightarrow> error + npfloat" where
  "score_protocol call ground_truths predictions valid_indexes =
     (let valid_indexes = (case valid_indexes of None \<Rightarrow> Slice None None | Some v \<Rightarrow> v) in
      case select (y_pred predictions) valid_indexes of
        Inl e \<Rightarrow> Inl e
      | Inr rows \<Rightarrow>
          (let y_proba = map snd rows in
           case select (y_pred_label_index ground_truths) valid_indexes of
             Inl e \<Rightarrow> Inl e
           | Inr y_true_proba \<Rightarrow>
               (case check_y_pred_dimensions y_true_proba y_proba of
                  Inl e \<Rightarrow> Inl e
                | Inr u \<Rightarrow> call (map real_of_int y_true_proba) y_proba)))"

subsection \<open>BrierScore\<close>

definition BrierScore_call :: "real list \<Rightarrow> real list \<Rightarrow> error + npfloat" where
  "BrierScore_call y_true_proba y_proba =
     (case broadcast2 (\<lambda>p t. np_sq (np_sub (Fin p) (Fin t))) y_proba y_true_proba of
        Inl e \<Rightarrow> Inl e
      | Inr sq \<Rightarrow> Inr (np_mean sq))"

definition BrierScore_score_function ::
  "ground_truths \<Rightarrow> predictions \<Rightarrow> valid_indexes option \<Rightarrow> error + npfloat" where
  "BrierScore_score_function = score_protocol BrierScore_call"

subsection \<open>BrierSkillScore\<close>

text \<open>Line 61, the reference variance \<^verbatim>\<open>bs_c\<close>: a scalar minus an array, squared, averaged.\<close>

definition bs_c :: "real list \<Rightarrow> npfloat" where
  "bs_c y_true_proba =
     (let m = np_mean (map Fin y_true_proba) in
      np_mean (map (\<lambda>t. np_sq (np_sub m (Fin t))) y_true_proba))"

definition BrierSkillScore_call :: "real list \<Rightarrow> real list \<Rightarrow> error + npfloat" where
  "BrierSkillScore_call y_true_proba y_proba =
     (case broadcast2 (\<lambda>p t. np_sq (np_sub (Fin p) (Fin t))) y_proba y_true_proba of
        Inl e \<Rightarrow> Inl e
      | Inr sq \<Rightarrow>
          (let bs = np_mean sq in
           Inr (np_sub (Fin 1) (np_div bs (bs_c y_true_proba)))))"

definition BrierSkillScore_score_function ::
  "ground_truths \<Rightarrow> predictions \<Rightarrow> valid_indexes option \<Rightarrow> error + npfloat" where
  "BrierSkillScore_score_function = score_protocol BrierSkillScore_call"

subsection \<open>The binned scorers: BrierScoreReliability and BrierScoreResolution\<close>

record binned_scorer =
  name :: string
  precision :: nat
  bins :: "real list"
  bin_centers :: "real list"

text \<open>The default of the parameter \<^verbatim>\<open>bins\<close>: \<^verbatim>\<open>np.arange(0, 1.2, 0.1)\<close>.\<close>

definition default_bins :: "real list" where
  "default_bins = np_arange 0 (12 / 10) (1 / 10)"

text \<open>
  Lines 74-76 and 112-114: \<^verbatim>\<open>(bins[1:] - bins[:-1]) * 0.05\<close>, then every entry above 1
  set to 1, then every entry below 0 set to 0.
\<close>

definition centers_of :: "real list \<Rightarrow> real list" where
  "centers_of bs =
     (let c = map2 (\<lambda>hi lo. (hi - lo) * (5 / 100)) (tl bs) (butlast bs);
          c = map (\<lambda>x. if x > 1 then 1 else x) c;
          c = map (\<lambda>x. if x < 0 then 0 else x) c
      in c)"

definition BrierScoreReliability_init :: "string \<Rightarrow> nat \<Rightarrow> real list \<Rightarrow> binned_scorer" where
  "BrierScoreReliability_init nm prec bs =
     \<lparr>name = nm, precision = prec, bins = bs, bin_centers = centers_of bs\<rparr>"

definition BrierScoreResolution_init :: "string \<Rightarrow> nat \<Rightarrow> real list \<Rightarrow> binned_scorer" where
  "BrierScoreResolution_init nm prec bs =
     \<lparr>name = nm, precision = prec, bins = bs, bin_centers = centers_of bs\<rparr>"

text \<open>
  Lines 98 and 139, \<^verbatim>\<open>pos_obs_freq / fore_freq\<close>: the two arrays are counts over the
  same edges, so they have the same length.
\<close>

definition pos_obs_rel_freq :: "nat list \<Rightarrow> nat list \<Rightarrow> npfloat list" where
  "pos_obs_rel_freq pos_obs_freq fore_freq =
     map2 (\<lambda>p f. np_div (Fin (real p)) (Fin (real f))) pos_obs_freq fore_freq"

text \<open>
  Line 99. Python evaluates \<^verbatim>\<open>1 / float(y_proba.size)\<close> first, and its float division
  raises ZeroDivisionError at zero. \<^verbatim>\<open>np.errstate\<close> only silences a warning.
\<close>

definition BrierScoreReliability_call ::
  "binned_scorer \<Rightarrow> real list \<Rightarrow> real list \<Rightarrow> error + npfloat" where
  "BrierScoreReliability_call self y_true_proba y_proba =
     (case mask_select y_proba (map (\<lambda>t. t = 1) y_true_proba) of
        Inl e \<Rightarrow> Inl e
      | Inr positives \<Rightarrow>
     (case np_histogram positives (bins self) of
        Inl e \<Rightarrow> Inl e
      | Inr pos_obs_freq \<Rightarrow>
     (case np_histogram y_proba (bins self) of
        Inl e \<Rightarrow> Inl e
      | Inr fore_freq \<Rightarrow>
     (let rel = pos_obs_rel_freq pos_obs_freq fore_freq in
      if length y_proba = 0 then Inl ZeroDivisionError
      else
     (case broadcast2 (\<lambda>c r. np_sq (np_sub (Fin c) r)) (bin_centers self) rel of
        Inl e \<Rightarrow> Inl e
      | Inr dev \<Rightarrow>
     (case broadcast2 (\<lambda>f d. np_mul (Fin (real f)) d) fore_freq dev of
        Inl e \<Rightarrow> Inl e
      | Inr terms \<Rightarrow>
          Inr (np_mul (Fin (1 / real (length y_proba))) (np_nansum terms))))))))"

definition BrierScoreReliability_score_function ::
  "binned_scorer \<Rightarrow> ground_truths \<Rightarrow> predictions \<Rightarrow> valid_indexes option \<Rightarrow> error + npfloat"
  where
  "BrierScoreReliability_score_function self = score_protocol (BrierScoreReliability_call self)"

text \<open>
  Lines 133-141. \<^verbatim>\<open>np.seterr\<close> changes how numpy reports a division by zero from then
  on, not what any division returns; it is left out.
\<close>

definition BrierScoreResolution_call ::
  "binned_scorer \<Rightarrow> real list \<Rightarrow> real list \<Rightarrow> error + npfloat" where
  "BrierScoreResolution_call self y_true_proba y_proba =
     (case mask_select y_proba (map (\<lambda>t. t = 1) y_true_proba) of
        Inl e \<Rightarrow> Inl e
      | Inr positives \<Rightarrow>
     (case np_histogram positives (bins self) of
        Inl e \<Rightarrow> Inl e
      | Inr pos_obs_freq \<Rightarrow>
     (case np_histogram y_proba (bins self) of
        Inl e \<Rightarrow> Inl e
      | Inr fore_freq \<Rightarrow>
     (let climo = np_mean (map Fin y_true_proba);
          unc = np_mul climo (np_sub (Fin 1) climo);
          rel = pos_obs_rel_freq pos_obs_freq fore_freq
      in
      if length y_proba = 0 then Inl ZeroDivisionError
      else
        (let terms = map2 (\<lambda>f r. np_mul (Fin (real f)) (np_sq (np_sub r climo))) fore_freq rel;
             score = np_mul (Fin (1 / real (length y_proba))) (np_nansum terms)
         in Inr (np_div score unc))))))"

definition BrierScoreResolution_score_function ::
  "binned_scorer \<Rightarrow> ground_truths \<Rightarrow> predictions \<Rightarrow> valid_indexes option \<Rightarrow> error + npfloat"
  where
  "BrierScoreResolution_score_function self = score_protocol (BrierScoreResolution_call self)"

section \<open>Properties\<close>

subsection \<open>Arithmetic on finite values\<close>

lemma np_sum_Fin: "np_sum (map Fin xs) = Fin (sum_list xs)"
  by (induction xs) simp_all

lemma np_sq_sub_Fin: "np_sq (np_sub (Fin p) (Fin t)) = Fin ((p - t)\<^sup>2)"
  by (simp add: np_sq_def np_sub_def power2_eq_square)

lemma np_sum_sq_diffs:
  "np_sum (map2 (\<lambda>p t. np_sq (np_sub (Fin p) (Fin t))) ps ts) =
   Fin (sum_list (map2 (\<lambda>p t. (p - t)\<^sup>2) ps ts))"
  by (induction ps ts rule: list_induct2') (simp_all add: np_sq_sub_Fin)

subsection \<open>The Brier score\<close>

lemma BrierScore_call_aligned:
  assumes "length y_true_proba = length y_proba"
  shows "BrierScore_call y_true_proba y_proba =
    Inr (np_div (Fin (sum_list (map2 (\<lambda>p t. (p - t)\<^sup>2) y_proba y_true_proba)))
                (Fin (real (length y_proba))))"
  unfolding BrierScore_call_def broadcast2_def np_mean_def
  using assms by (simp add: np_sum_sq_diffs del: np_div.simps)

text \<open>
  C1. On aligned arrays with at least one instance, \<^verbatim>\<open>BrierScore.__call__\<close> returns the
  mean of the squared differences of y_proba and y_true_proba: their sum divided by the
  number of instances. For y_true_proba = [0,0,1,1] and y_proba = [0.1,0.2,0.8,0.9] the
  squared differences are [0.01,0.04,0.04,0.01] and the score is 0.025.
\<close>

theorem BrierScore_call_is_mean:
  "(length y_true_proba = length y_proba \<longrightarrow> y_proba \<noteq> [] \<longrightarrow>
      BrierScore_call y_true_proba y_proba =
        Inr (Fin (sum_list (map2 (\<lambda>p t. (p - t)\<^sup>2) y_proba y_true_proba)
                  / real (length y_proba))))
   \<and> map2 (\<lambda>p t. (p - t)\<^sup>2) [1/10, 2/10, 8/10, 9/10] [0, 0, 1, 1::real]
        = [1/100, 4/100, 4/100, 1/100]
   \<and> BrierScore_call [0, 0, 1, 1] [1/10, 2/10, 8/10, 9/10] = Inr (Fin (25/1000))"
proof (intro conjI impI)
  assume "length y_true_proba = length y_proba" "y_proba \<noteq> []"
  then show "BrierScore_call y_true_proba y_proba =
        Inr (Fin (sum_list (map2 (\<lambda>p t. (p - t)\<^sup>2) y_proba y_true_proba)
                  / real (length y_proba)))"
    by (simp add: BrierScore_call_aligned)
next
  show "map2 (\<lambda>p t. (p - t)\<^sup>2) [1/10, 2/10, 8/10, 9/10] [0, 0, 1, 1::real]
        = [1/100, 4/100, 4/100, 1/100]"
    by (simp add: power2_eq_square)
next
  show "BrierScore_call [0, 0, 1, 1] [1/10, 2/10, 8/10, 9/10] = Inr (Fin (25/1000))"
    by (simp add: BrierScore_call_aligned power2_eq_square)
qed

theorem BrierScore_call_is_mean_witness:
  "BrierScore_call [0, 1] [1/4, 3/4] = Inr (Fin (1/16))"
  using BrierScore_call_is_mean [of "[0, 1]" "[1/4, 3/4]"]
  by (simp add: power2_eq_square)




subsection \<open>The Brier skill score when the outcomes do not vary\<close>

lemma np_sum_replicate: "np_sum (replicate n (Fin c)) = Fin (real n * c)"
  by (induction n) (simp_all add: algebra_simps)

lemma np_mean_replicate:
  "0 < n \<Longrightarrow> np_mean (replicate n (Fin c)) = Fin c"
  by (simp add: np_mean_def np_sum_replicate)

lemma bs_c_replicate:
  assumes "0 < n"
  shows "bs_c (replicate n c) = Fin 0"
proof -
  have m: "np_mean (map Fin (replicate n c)) = Fin c"
    using assms by (simp add: np_mean_replicate)
  have "map (\<lambda>t. np_sq (np_sub (Fin c) (Fin t))) (replicate n c) = replicate n (Fin 0)"
    by (simp add: np_sq_sub_Fin)
  then have "bs_c (replicate n c) = np_mean (replicate n (Fin 0))"
    unfolding bs_c_def Let_def m by (rule arg_cong)
  then show ?thesis
    using assms by (simp add: np_mean_replicate)
qed

lemma constant_list: "(\<forall>t\<in>set ts. t = c) \<Longrightarrow> ts = replicate (length ts) c"
  by (induction ts) simp_all

lemma np_mean_sq_diffs:
  assumes "length ts = length ps" and "ps \<noteq> []"
  shows "np_mean (map2 (\<lambda>p t. np_sq (np_sub (Fin p) (Fin t))) ps ts) =
    Fin (sum_list (map2 (\<lambda>p t. (p - t)\<^sup>2) ps ts) / real (length ps))"
  using assms by (simp add: np_mean_def np_sum_sq_diffs)

text \<open>
  C6. When all the outcomes passed to \<^verbatim>\<open>BrierSkillScore.__call__\<close> are the same number
  (there is at least one, and the forecasts are aligned with them), the reference variance
  \<^verbatim>\<open>bs_c\<close> is zero, and the call returns 1 - bs / bs_c with that zero divisor, where bs
  is the Brier score of the input: no branch checks the divisor, no error is raised, and the
  value is what numpy's division by zero gives, not-a-number when bs is zero and minus
  infinity when it is not. (On the empty input \<^verbatim>\<open>bs_c\<close> is not-a-number, not zero.)
\<close>

theorem BrierSkillScore_identical_outcomes:
  assumes "y_true_proba \<noteq> []" and "\<forall>t\<in>set y_true_proba. t = c"
    and "length y_proba = length y_true_proba"
  shows "bs_c y_true_proba = Fin 0
       \<and> (\<exists>bs. BrierScore_call y_true_proba y_proba = Inr (Fin bs) \<and> 0 \<le> bs
            \<and> BrierSkillScore_call y_true_proba y_proba
                = Inr (np_sub (Fin 1) (np_div (Fin bs) (bs_c y_true_proba)))
            \<and> BrierSkillScore_call y_true_proba y_proba
                = Inr (if bs = 0 then NaN else NInf))"
proof -
  let ?n = "length y_true_proba"
  let ?S = "sum_list (map2 (\<lambda>p t. (p - t)\<^sup>2) y_proba y_true_proba)"
  let ?bs = "?S / real (length y_proba)"
  have ne: "y_proba \<noteq> []" using assms(1,3) by auto
  have n: "0 < ?n" using assms(1) by simp
  have "y_true_proba = replicate ?n c" using assms(2) by (rule constant_list)
  then have var: "bs_c y_true_proba = Fin 0" using bs_c_replicate [OF n, of c] by simp
  have S: "0 \<le> ?S" by (rule sum_list_nonneg) auto
  have mean: "np_mean (map2 (\<lambda>p t. np_sq (np_sub (Fin p) (Fin t))) y_proba y_true_proba)
      = Fin ?bs"
    by (rule np_mean_sq_diffs [OF assms(3) [symmetric] ne])
  have bs: "BrierScore_call y_true_proba y_proba = Inr (Fin ?bs)"
    using assms(3) mean by (simp add: BrierScore_call_def broadcast2_def)
  have skill: "BrierSkillScore_call y_true_proba y_proba
      = Inr (np_sub (Fin 1) (np_div (Fin ?bs) (bs_c y_true_proba)))"
    using assms(3) mean by (simp add: BrierSkillScore_call_def broadcast2_def)
  have nonneg: "0 \<le> ?bs" using S by simp
  have conv: "np_sub (Fin 1) (np_div (Fin ?bs) (Fin 0)) = (if ?bs = 0 then NaN else NInf)"
    using nonneg by (simp add: np_sub_def)
  have "BrierSkillScore_call y_true_proba y_proba = Inr (if ?bs = 0 then NaN else NInf)"
    using skill conv var by simp
  then show ?thesis using var bs skill nonneg by blast
qed

theorem BrierSkillScore_identical_outcomes_witness:
  "bs_c [1, 1, 1] = Fin 0 \<and> BrierSkillScore_call [1, 1, 1] [1/2, 1, 1] = Inr NInf"
proof -
  have hyps: "[1, 1, 1::real] \<noteq> []" "\<forall>t\<in>set [1, 1, 1::real]. t = 1"
    "length [1/2, 1, 1::real] = length [1, 1, 1::real]"
    by simp_all
  from BrierSkillScore_identical_outcomes [OF hyps]
  obtain bs where var: "bs_c [1, 1, 1] = Fin 0"
    and bs: "BrierScore_call [1, 1, 1] [1/2, 1, 1] = Inr (Fin bs)"
    and skill: "BrierSkillScore_call [1, 1, 1] [1/2, 1, 1] = Inr (if bs = 0 then NaN else NInf)"
    by blast
  have "BrierScore_call [1, 1, 1] [1/2, 1, 1] = Inr (Fin (1/12))"
    by (simp add: BrierScore_call_aligned power2_eq_square)
  with bs have "bs \<noteq> 0" by simp
  with var skill show ?thesis by simp
qed

subsection \<open>The default bins and the bin centers\<close>

lemma default_bins_eq:
  "default_bins = [0, 1/10, 2/10, 3/10, 4/10, 5/10, 6/10, 7/10, 8/10, 9/10, 1, 11/10]"
  by (simp add: default_bins_def np_arange_def upt_rec)

lemma centers_of_default: "centers_of default_bins = replicate 11 (5/1000)"
  by (simp add: default_bins_eq centers_of_def numeral_eq_Suc)

lemma count_one: "length (filter P [p]) = (if P p then 1 else 0)"
  by simp

text \<open>
  C3, as the claim states it: the default edges make ten bins. They make eleven.
\<close>

theorem default_bins_not_ten_bins:
  "length (bin_counts [] default_bins) \<noteq> 10
   \<and> length (bin_centers (BrierScoreReliability_init ''brier_score'' 3 default_bins)) \<noteq> 10
   \<and> length (bin_centers (BrierScoreResolution_init ''brier_score'' 3 default_bins)) \<noteq> 10"
  by (simp add: default_bins_eq BrierScoreReliability_init_def BrierScoreResolution_init_def
      centers_of_def)

text \<open>
  C3, amended. The default bin edges of BrierScoreReliability and BrierScoreResolution,
  \<^verbatim>\<open>np.arange(0, 1.2, 0.1)\<close>, are the twelve edges 0, 0.1, ..., 1.0, 1.1: exactly eleven
  bins, each of width 0.1, covering [0, 1.1] (the histogram counts a forecast p once when
  0 \<le> p \<le> 1.1, the last bin being closed, and not at all otherwise).
\<close>

theorem default_bins_eleven_bins:
  "default_bins = [0, 1/10, 2/10, 3/10, 4/10, 5/10, 6/10, 7/10, 8/10, 9/10, 1, 11/10]
   \<and> length (bin_counts a default_bins) = 11
   \<and> map2 (\<lambda>hi lo. hi - lo) (tl default_bins) (butlast default_bins) = replicate 11 (1/10)
   \<and> sum_list (bin_counts [p] default_bins) = (if 0 \<le> p \<and> p \<le> 11/10 then 1 else 0)"
proof (intro conjI)
  show "sum_list (bin_counts [p] default_bins) = (if 0 \<le> p \<and> p \<le> 11/10 then 1 else 0)"
    unfolding default_bins_eq by (simp del: filter.simps add: count_one)
qed (simp_all add: default_bins_eq numeral_eq_Suc)

theorem default_bins_eleven_bins_witness:
  "length (bin_counts [1/2, 11/10] default_bins) = 11
   \<and> sum_list (bin_counts [11/10] default_bins) = 1"
  using default_bins_eleven_bins [of "[1/2, 11/10]" "11/10"] by simp

text \<open>
  C2, at the default bins. The constructors compute 0.05 times the width of each bin, not
  the midpoint of its edges: every default bin gets the center 0.005, and the center of the
  bin [0.5, 0.6) lies below the bin.
\<close>

theorem bin_centers_at_default:
  "bin_centers (BrierScoreReliability_init nm prec default_bins) = replicate 11 (5/1000)
   \<and> bin_centers (BrierScoreResolution_init nm prec default_bins) = replicate 11 (5/1000)
   \<and> default_bins ! 5 = 5/10 \<and> default_bins ! 6 = 6/10
   \<and> bin_centers (BrierScoreReliability_init nm prec default_bins) ! 5 < default_bins ! 5"
  by (simp add: BrierScoreReliability_init_def BrierScoreResolution_init_def
      centers_of_default) (simp add: default_bins_eq numeral_eq_Suc)

subsection \<open>The empty input\<close>

text \<open>
  C10. On the empty input, \<^verbatim>\<open>__call__\<close> of BrierScoreReliability and of
  BrierScoreResolution (with bin edges that do not decrease, which the histogram needs)
  fails with ZeroDivisionError, raised by \<^verbatim>\<open>1 / float(y_proba.size)\<close>; \<^verbatim>\<open>__call__\<close>
  of BrierScore returns not-a-number on the same input.
\<close>

theorem empty_input_division_by_zero:
  assumes "increasing (bins rel)" and "increasing (bins res)"
  shows "BrierScoreReliability_call rel [] [] = Inl ZeroDivisionError
       \<and> BrierScoreResolution_call res [] [] = Inl ZeroDivisionError
       \<and> BrierScore_call [] [] = Inr NaN"
  using assms
  by (simp add: BrierScoreReliability_call_def BrierScoreResolution_call_def BrierScore_call_def
      mask_select_def np_histogram_def broadcast2_def np_mean_def)

theorem empty_input_division_by_zero_witness:
  "BrierScoreReliability_call (BrierScoreReliability_init ''brier_score'' 3 default_bins) [] []
     = Inl ZeroDivisionError
   \<and> BrierScoreResolution_call (BrierScoreResolution_init ''brier_score'' 3 default_bins) [] []
     = Inl ZeroDivisionError
   \<and> BrierScore_call [] [] = Inr NaN"
  using empty_input_division_by_zero
    [of "BrierScoreReliability_init ''brier_score'' 3 default_bins"
        "BrierScoreResolution_init ''brier_score'' 3 default_bins"]
  by (simp add: BrierScoreReliability_init_def BrierScoreResolution_init_def default_bins_eq)

subsection \<open>The scoring protocol: dimension check and index selection\<close>

lemma protocol_mismatch:
  assumes "select (y_pred predictions) (case valid_indexes of None \<Rightarrow> Slice None None | Some v \<Rightarrow> v)
             = Inr rows"
    and "select (y_pred_label_index ground_truths)
             (case valid_indexes of None \<Rightarrow> Slice None None | Some v \<Rightarrow> v) = Inr labels"
    and "length labels \<noteq> length rows"
  shows "score_protocol call ground_truths predictions valid_indexes = Inl DimensionMismatch"
  using assms by (simp add: score_protocol_def check_y_pred_dimensions_def Let_def)

text \<open>
  C4. Whenever index selection succeeds on the predictions and on the ground truths and
  leaves columns of different lengths, \<^verbatim>\<open>score_function\<close> of each of the four scorers
  fails with the dimension-mismatch error of the dimension check: no score is computed, so
  nothing is truncated or broadcast.
\<close>

theorem score_function_dimension_mismatch:
  assumes "select (y_pred predictions) (case valid_indexes of None \<Rightarrow> Slice None None | Some v \<Rightarrow> v)
             = Inr rows"
    and "select (y_pred_label_index ground_truths)
             (case valid_indexes of None \<Rightarrow> Slice None None | Some v \<Rightarrow> v) = Inr labels"
    and "length labels \<noteq> length rows"
  shows "BrierScore_score_function ground_truths predictions valid_indexes
           = Inl DimensionMismatch
       \<and> BrierSkillScore_score_function ground_truths predictions valid_indexes
           = Inl DimensionMismatch
       \<and> BrierScoreReliability_score_function rel ground_truths predictions valid_indexes
           = Inl DimensionMismatch
       \<and> BrierScoreResolution_score_function res ground_truths predictions valid_indexes
           = Inl DimensionMismatch"
  unfolding BrierScore_score_function_def BrierSkillScore_score_function_def
    BrierScoreReliability_score_function_def BrierScoreResolution_score_function_def
  by (simp only: protocol_mismatch [OF assms])

theorem score_function_dimension_mismatch_witness:
  "BrierScore_score_function \<lparr>y_pred_label_index = [0, 0, 1, 1]\<rparr>
      \<lparr>y_pred = [(9/10, 1/10), (8/10, 2/10), (2/10, 8/10)]\<rparr> None = Inl DimensionMismatch
   \<and> BrierScoreResolution_score_function (BrierScoreResolution_init ''brier_score'' 3 default_bins)
      \<lparr>y_pred_label_index = [0, 0, 1, 1]\<rparr>
      \<lparr>y_pred = [(9/10, 1/10), (8/10, 2/10), (2/10, 8/10)]\<rparr> None = Inl DimensionMismatch"
  using score_function_dimension_mismatch
    [of "\<lparr>y_pred = [(9/10, 1/10), (8/10, 2/10), (2/10, 8/10)]\<rparr>" None
        "[(9/10, 1/10), (8/10, 2/10), (2/10, 8/10)]"
        "\<lparr>y_pred_label_index = [0, 0, 1, 1]\<rparr>" "[0, 0, 1, 1]"
        _ "BrierScoreResolution_init ''brier_score'' 3 default_bins"]
  by simp

lemma select_all_positions: "select xs (Index_array (map int [0..<length xs])) = Inr xs"
proof -
  have "map (\<lambda>i. xs ! nat (if i < 0 then int (length xs) + i else i)) (map int [0..<length xs])
      = map (\<lambda>k. xs ! k) [0..<length xs]"
    by simp
  then show ?thesis
    by (simp add: list_all_iff map_nth del: map_map)
qed

lemma select_beyond:
  assumes "length xs < n"
  shows "select xs (Index_array (map int [0..<n])) = Inl IndexError"
proof -
  have "int (length xs) \<in> set (map int [0..<n])" using assms by simp
  then have "\<not> list_all (\<lambda>i. - int (length xs) \<le> i \<and> i < int (length xs)) (map int [0..<n])"
    unfolding list_all_iff by fastforce
  then show ?thesis by (simp add: Let_def)
qed

lemma select_full_slice: "select xs (Slice None None) = Inr xs"
  by simp

lemma protocol_all_positions:
  assumes "length (y_pred p) = length (y_pred_label_index g)"
  shows "score_protocol call g p
           (Some (Index_array (map int
              [0..<max (length (y_pred p)) (length (y_pred_label_index g))])))
       = score_protocol call g p None"
proof -
  have a: "select (y_pred p) (Index_array (map int [0..<length (y_pred_label_index g)]))
      = Inr (y_pred p)"
    using select_all_positions [of "y_pred p"] assms by simp
  have b: "select (y_pred_label_index g) (Index_array (map int [0..<length (y_pred_label_index g)]))
      = Inr (y_pred_label_index g)"
    by (rule select_all_positions)
  show ?thesis
    unfolding score_protocol_def using assms
    by (simp only: a b select_full_slice max.idem option.case Let_def)
qed

lemma protocol_positions_misaligned:
  assumes "length (y_pred p) \<noteq> length (y_pred_label_index g)"
  shows "score_protocol call g p
           (Some (Index_array (map int
              [0..<max (length (y_pred p)) (length (y_pred_label_index g))])))
         = Inl IndexError
       \<and> score_protocol call g p None = Inl DimensionMismatch"
proof -
  let ?n = "max (length (y_pred p)) (length (y_pred_label_index g))"
  have none: "score_protocol call g p None = Inl DimensionMismatch"
    using assms by (simp add: score_protocol_def check_y_pred_dimensions_def)
  have "score_protocol call g p (Some (Index_array (map int [0..<?n]))) = Inl IndexError"
  proof (cases "length (y_pred p) < length (y_pred_label_index g)")
    case True
    then have "select (y_pred p) (Index_array (map int [0..<?n])) = Inl IndexError"
      by (intro select_beyond) simp
    then show ?thesis by (simp add: score_protocol_def del: select.simps)
  next
    case False
    with assms have lt: "length (y_pred_label_index g) < length (y_pred p)" by simp
    then have n: "?n = length (y_pred p)" by simp
    have a: "select (y_pred p) (Index_array (map int [0..<?n])) = Inr (y_pred p)"
      unfolding n by (rule select_all_positions)
    have b: "select (y_pred_label_index g) (Index_array (map int [0..<?n])) = Inl IndexError"
      using lt by (intro select_beyond) simp
    show ?thesis
      unfolding score_protocol_def by (simp only: a b option.case Let_def sum.case)
  qed
  with none show ?thesis by simp
qed

text \<open>
  C7. Take the index array 0, 1, ..., n - 1 that covers every position of the predictions
  and of the ground truths. When the two have the same number of instances,
  \<^verbatim>\<open>score_function\<close> of each of the four scorers returns with these explicit indexes
  exactly what it returns with \<^verbatim>\<open>valid_indexes = None\<close> (the same score or the same
  error). When they do not, neither call returns a score: the explicit indexes run out of
  range of the shorter array (IndexError) and the call with None fails the dimension check.
\<close>

theorem score_function_all_positions:
  fixes ground_truths :: ground_truths and predictions :: predictions
    and rel res :: binned_scorer
  defines "n \<equiv> max (length (y_pred predictions)) (length (y_pred_label_index ground_truths))"
  defines "every \<equiv> Some (Index_array (map int [0..<n]))"
  shows "if length (y_pred predictions) = length (y_pred_label_index ground_truths)
    then BrierScore_score_function ground_truths predictions every
           = BrierScore_score_function ground_truths predictions None
       \<and> BrierSkillScore_score_function ground_truths predictions every
           = BrierSkillScore_score_function ground_truths predictions None
       \<and> BrierScoreReliability_score_function rel ground_truths predictions every
           = BrierScoreReliability_score_function rel ground_truths predictions None
       \<and> BrierScoreResolution_score_function res ground_truths predictions every
           = BrierScoreResolution_score_function res ground_truths predictions None
    else BrierScore_score_function ground_truths predictions every = Inl IndexError
       \<and> BrierScore_score_function ground_truths predictions None = Inl DimensionMismatch
       \<and> BrierSkillScore_score_function ground_truths predictions every = Inl IndexError
       \<and> BrierSkillScore_score_function ground_truths predictions None = Inl DimensionMismatch
       \<and> BrierScoreReliability_score_function rel ground_truths predictions every
           = Inl IndexError
       \<and> BrierScoreReliability_score_function rel ground_truths predictions None
           = Inl DimensionMismatch
       \<and> BrierScoreResolution_score_function res ground_truths predictions every
           = Inl IndexError
       \<and> BrierScoreResolution_score_function res ground_truths predictions None
           = Inl DimensionMismatch"
proof (cases "length (y_pred predictions) = length (y_pred_label_index ground_truths)")
  case True
  have same: "score_protocol call ground_truths predictions every
      = score_protocol call ground_truths predictions None" for call
    unfolding every_def n_def by (rule protocol_all_positions [OF True])
  show ?thesis
    unfolding BrierScore_score_function_def BrierSkillScore_score_function_def
      BrierScoreReliability_score_function_def BrierScoreResolution_score_function_def
    by (simp only: same True if_True simp_thms)
next
  case False
  have fails: "score_protocol call ground_truths predictions every = Inl IndexError"
    "score_protocol call ground_truths predictions None = Inl DimensionMismatch" for call
    unfolding every_def n_def using protocol_positions_misaligned [OF False, of call]
    by simp_all
  show ?thesis
    unfolding BrierScore_score_function_def BrierSkillScore_score_function_def
      BrierScoreReliability_score_function_def BrierScoreResolution_score_function_def
    by (simp only: fails False if_False simp_thms)
qed

theorem score_function_all_positions_witness:
  "BrierScore_score_function \<lparr>y_pred_label_index = [0, 0, 1, 1]\<rparr>
      \<lparr>y_pred = [(9/10, 1/10), (8/10, 2/10), (2/10, 8/10), (1/10, 9/10)]\<rparr>
      (Some (Index_array [0, 1, 2, 3]))
   = BrierScore_score_function \<lparr>y_pred_label_index = [0, 0, 1, 1]\<rparr>
      \<lparr>y_pred = [(9/10, 1/10), (8/10, 2/10), (2/10, 8/10), (1/10, 9/10)]\<rparr> None"
proof -
  have idx: "map int [0..<4] = [0, 1, 2, 3]"
    by (simp add: upt_rec)
  show ?thesis
    using score_function_all_positions
      [of "\<lparr>y_pred = [(9/10, 1/10), (8/10, 2/10), (2/10, 8/10), (1/10, 9/10)]\<rparr>"
          "\<lparr>y_pred_label_index = [0, 0, 1, 1]\<rparr>"]
    by (simp add: idx)
qed

subsection \<open>The binned scores: empty bins and no skill\<close>

lemma length_bin_counts: "length (bin_counts a es) = length es - 1"
  by (induction a es rule: bin_counts.induct) simp_all

lemma length_centers_of: "length (centers_of es) = length es - 1"
  by (simp add: centers_of_def)

lemma filter_masked_le:
  "length (filter P (map fst (filter snd (zip a m)))) \<le> length (filter P a)"
proof (induction a arbitrary: m)
  case Nil
  then show ?case by simp
next
  case (Cons x a)
  show ?case
  proof (cases m)
    case Nil
    then show ?thesis by simp
  next
    case (Cons b m')
    with Cons.IH [of m'] show ?thesis by (simp add: le_SucI)
  qed
qed

lemma bin_counts_masked_le:
  "i < length (bin_counts a es) \<Longrightarrow>
   bin_counts (map fst (filter snd (zip a m))) es ! i \<le> bin_counts a es ! i"
proof (induction a es arbitrary: i rule: bin_counts.induct)
  case (1 a lo hi)
  then show ?case
    using filter_masked_le [of "\<lambda>x. lo \<le> x \<and> x \<le> hi" a m] by simp
next
  case (2 a lo hi v va)
  then show ?case
    using filter_masked_le [of "\<lambda>x. lo \<le> x \<and> x < hi" a m] by (cases i) simp_all
qed simp_all

lemma rel_term:
  "nan_to_zero (np_mul (Fin (real f))
      (np_sq (np_sub (Fin c) (np_div (Fin (real p)) (Fin (real f))))))
   = Fin (if f = 0 then 0 else real f * (c - real p / real f)\<^sup>2)"
  by (cases "f = 0"; cases "p = 0")
    (simp_all add: np_sq_def np_sub_def inf_times_def power2_eq_square)

lemma res_term:
  "nan_to_zero (np_mul (Fin (real f))
      (np_sq (np_sub (np_div (Fin (real p)) (Fin (real f))) (Fin m))))
   = Fin (if f = 0 then 0 else real f * (real p / real f - m)\<^sup>2)"
  by (cases "f = 0"; cases "p = 0")
    (simp_all add: np_sq_def np_sub_def inf_times_def power2_eq_square)

lemma nansum_rel:
  assumes "length fs = length cs" and "length cs = length ps"
  shows "np_nansum (map2 (\<lambda>f d. np_mul (Fin (real f)) d) fs
           (map2 (\<lambda>c r. np_sq (np_sub (Fin c) r)) cs (pos_obs_rel_freq ps fs)))
       = Fin (sum_list (map (\<lambda>(f, c, p). real f * (c - real p / real f)\<^sup>2)
                (filter (\<lambda>(f, c, p). f \<noteq> 0) (zip fs (zip cs ps)))))"
  using assms
proof (induction fs cs ps rule: list_induct3)
  case Nil
  then show ?case by (simp add: np_nansum_def pos_obs_rel_freq_def)
next
  case (Cons f fs c cs p ps)
  then show ?case
    unfolding np_nansum_def pos_obs_rel_freq_def
    by (simp add: rel_term del: np_div.simps np_mul.simps)
qed

lemma nansum_res:
  assumes "length fs = length ps"
  shows "np_nansum (map2 (\<lambda>f r. np_mul (Fin (real f)) (np_sq (np_sub r (Fin m)))) fs
           (pos_obs_rel_freq ps fs))
       = Fin (sum_list (map (\<lambda>(f, p). real f * (real p / real f - m)\<^sup>2)
                (filter (\<lambda>(f, p). f \<noteq> 0) (zip fs ps))))"
  using assms
proof (induction fs ps rule: list_induct2)
  case Nil
  then show ?case by (simp add: np_nansum_def pos_obs_rel_freq_def)
next
  case (Cons f fs p ps)
  then show ?case
    unfolding np_nansum_def pos_obs_rel_freq_def
    by (simp add: res_term del: np_div.simps np_mul.simps)
qed

lemma broadcast2_aligned:
  "length xs = length ys \<Longrightarrow> broadcast2 f xs ys = Inr (map2 f xs ys)"
  by (simp add: broadcast2_def)

lemma Reliability_call_value:
  assumes inc: "increasing bs" and len: "length y_true_proba = length y_proba"
    and ne: "y_proba \<noteq> []"
  shows "BrierScoreReliability_call (BrierScoreReliability_init nm prec bs) y_true_proba y_proba
    = Inr (Fin (1 / real (length y_proba) *
        sum_list (map (\<lambda>(f, c, p). real f * (c - real p / real f)\<^sup>2)
          (filter (\<lambda>(f, c, p). f \<noteq> 0)
            (zip (bin_counts y_proba bs)
              (zip (centers_of bs)
                (bin_counts (map fst (filter snd (zip y_proba (map (\<lambda>t. t = 1) y_true_proba))))
                   bs)))))))"
proof -
  let ?positives = "map fst (filter snd (zip y_proba (map (\<lambda>t. t = 1) y_true_proba)))"
  let ?pos = "bin_counts ?positives bs"
  let ?fore = "bin_counts y_proba bs"
  let ?rel = "pos_obs_rel_freq ?pos ?fore"
  let ?dev = "map2 (\<lambda>c r. np_sq (np_sub (Fin c) r)) (centers_of bs) ?rel"
  let ?terms = "map2 (\<lambda>f d. np_mul (Fin (real f)) d) ?fore ?dev"
  have mask: "mask_select y_proba (map (\<lambda>t. t = 1) y_true_proba) = Inr ?positives"
    using len by (simp add: mask_select_def)
  have hp: "np_histogram ?positives bs = Inr ?pos" and hf: "np_histogram y_proba bs = Inr ?fore"
    using inc by (simp_all add: np_histogram_def)
  have lrel: "length ?rel = length bs - 1"
    by (simp add: pos_obs_rel_freq_def length_bin_counts)
  have dev: "broadcast2 (\<lambda>c r. np_sq (np_sub (Fin c) r)) (centers_of bs) ?rel = Inr ?dev"
    by (rule broadcast2_aligned) (simp add: length_centers_of lrel)
  have ldev: "length ?dev = length bs - 1"
    by (simp add: length_centers_of lrel)
  have terms: "broadcast2 (\<lambda>f d. np_mul (Fin (real f)) d) ?fore ?dev = Inr ?terms"
    by (rule broadcast2_aligned) (simp only: length_bin_counts ldev)
  have sum: "np_nansum ?terms = Fin (sum_list (map (\<lambda>(f, c, p). real f * (c - real p / real f)\<^sup>2)
          (filter (\<lambda>(f, c, p). f \<noteq> 0) (zip ?fore (zip (centers_of bs) ?pos)))))"
    by (rule nansum_rel) (simp_all add: length_bin_counts length_centers_of)
  have size: "length y_proba \<noteq> 0" using ne by simp
  show ?thesis
    unfolding BrierScoreReliability_call_def BrierScoreReliability_init_def
    by (simp only: binned_scorer.simps mask hp hf dev terms sum size sum.case Let_def if_False
        np_mul.simps)
qed

lemma Resolution_call_value:
  assumes inc: "increasing (bins self)" and len: "length y_true_proba = length y_proba"
    and ne: "y_proba \<noteq> []"
  shows "BrierScoreResolution_call self y_true_proba y_proba
    = Inr (np_div
        (Fin (1 / real (length y_proba) *
          sum_list (map (\<lambda>(f, p).
              real f * (real p / real f - sum_list y_true_proba / real (length y_proba))\<^sup>2)
            (filter (\<lambda>(f, p). f \<noteq> 0)
              (zip (bin_counts y_proba (bins self))
                (bin_counts (map fst (filter snd (zip y_proba (map (\<lambda>t. t = 1) y_true_proba))))
                   (bins self)))))))
        (Fin (sum_list y_true_proba / real (length y_proba)
              * (1 - sum_list y_true_proba / real (length y_proba)))))"
proof -
  let ?positives = "map fst (filter snd (zip y_proba (map (\<lambda>t. t = 1) y_true_proba)))"
  let ?pos = "bin_counts ?positives (bins self)"
  let ?fore = "bin_counts y_proba (bins self)"
  let ?m = "sum_list y_true_proba / real (length y_proba)"
  have mask: "mask_select y_proba (map (\<lambda>t. t = 1) y_true_proba) = Inr ?positives"
    using len by (simp add: mask_select_def)
  have hp: "np_histogram ?positives (bins self) = Inr ?pos"
    and hf: "np_histogram y_proba (bins self) = Inr ?fore"
    using inc by (simp_all add: np_histogram_def)
  have climo: "np_mean (map Fin y_true_proba) = Fin ?m"
    using len ne by (simp add: np_mean_def np_sum_Fin)
  have unc: "np_mul (Fin ?m) (np_sub (Fin 1) (Fin ?m)) = Fin (?m * (1 - ?m))"
    by (simp add: np_sub_def)
  have sum: "np_nansum (map2 (\<lambda>f r. np_mul (Fin (real f)) (np_sq (np_sub r (Fin ?m)))) ?fore
           (pos_obs_rel_freq ?pos ?fore))
       = Fin (sum_list (map (\<lambda>(f, p). real f * (real p / real f - ?m)\<^sup>2)
                (filter (\<lambda>(f, p). f \<noteq> 0) (zip ?fore ?pos))))"
    by (rule nansum_res) (simp add: length_bin_counts)
  have size: "length y_proba \<noteq> 0" using ne by simp
  show ?thesis
    unfolding BrierScoreResolution_call_def
    by (simp only: mask hp hf climo unc sum size sum.case Let_def if_False np_mul.simps)
qed

lemma empty_bin_rel_freq:
  assumes "i < length (bin_counts y_proba bs)" and "bin_counts y_proba bs ! i = 0"
  shows "pos_obs_rel_freq (bin_counts (map fst (filter snd (zip y_proba m))) bs)
           (bin_counts y_proba bs) ! i = NaN"
proof -
  have "bin_counts (map fst (filter snd (zip y_proba m))) bs ! i \<le> bin_counts y_proba bs ! i"
    using assms(1) by (rule bin_counts_masked_le)
  then have "bin_counts (map fst (filter snd (zip y_proba m))) bs ! i = 0"
    using assms(2) by simp
  then show ?thesis
    using assms by (simp add: pos_obs_rel_freq_def length_bin_counts)
qed

text \<open>
  C5. For bin edges that do not decrease and aligned arrays with at least one instance, in
  BrierScoreReliability and BrierScoreResolution: the masked selection and the two
  histograms succeed; every bin with zero forecasts has a not-a-number observed relative
  frequency; and both calls return a value, whose sum runs over the bins with at least one
  forecast only, so a bin with zero forecasts contributes nothing and does not make the
  call fail. (The resolution is that sum over the instance count, divided by
  climo * (1 - climo) under numpy's division.)
\<close>

theorem empty_bins_excluded:
  fixes y_true_proba y_proba bs :: "real list"
  defines "positives \<equiv> map fst (filter snd (zip y_proba (map (\<lambda>t. t = 1) y_true_proba)))"
  defines "fore_freq \<equiv> bin_counts y_proba bs"
  defines "pos_obs_freq \<equiv> bin_counts positives bs"
  defines "climo \<equiv> sum_list y_true_proba / real (length y_proba)"
  assumes inc: "increasing bs" and len: "length y_true_proba = length y_proba"
    and ne: "y_proba \<noteq> []"
  shows "mask_select y_proba (map (\<lambda>t. t = 1) y_true_proba) = Inr positives
       \<and> np_histogram positives bs = Inr pos_obs_freq
       \<and> np_histogram y_proba bs = Inr fore_freq
       \<and> list_all2 (\<lambda>f r. f = 0 \<longrightarrow> r = NaN) fore_freq (pos_obs_rel_freq pos_obs_freq fore_freq)
       \<and> BrierScoreReliability_call (BrierScoreReliability_init nm prec bs) y_true_proba y_proba
           = Inr (Fin (1 / real (length y_proba) *
               sum_list (map (\<lambda>(f, c, p). real f * (c - real p / real f)\<^sup>2)
                 (filter (\<lambda>(f, c, p). f \<noteq> 0)
                    (zip fore_freq (zip (centers_of bs) pos_obs_freq))))))
       \<and> BrierScoreResolution_call (BrierScoreResolution_init nm' prec' bs) y_true_proba y_proba
           = Inr (np_div
               (Fin (1 / real (length y_proba) *
                  sum_list (map (\<lambda>(f, p). real f * (real p / real f - climo)\<^sup>2)
                    (filter (\<lambda>(f, p). f \<noteq> 0) (zip fore_freq pos_obs_freq)))))
               (Fin (climo * (1 - climo))))"
proof (intro conjI)
  show "mask_select y_proba (map (\<lambda>t. t = 1) y_true_proba) = Inr positives"
    using len by (simp add: mask_select_def positives_def)
  show "np_histogram positives bs = Inr pos_obs_freq"
    using inc by (simp add: np_histogram_def pos_obs_freq_def)
  show "np_histogram y_proba bs = Inr fore_freq"
    using inc by (simp add: np_histogram_def fore_freq_def)
  show "list_all2 (\<lambda>f r. f = 0 \<longrightarrow> r = NaN) fore_freq
          (pos_obs_rel_freq pos_obs_freq fore_freq)"
    unfolding list_all2_conv_all_nth
  proof (intro conjI allI impI)
    show "length fore_freq = length (pos_obs_rel_freq pos_obs_freq fore_freq)"
      by (simp add: pos_obs_rel_freq_def fore_freq_def pos_obs_freq_def length_bin_counts)
  next
    fix i assume "i < length fore_freq" "fore_freq ! i = 0"
    then show "pos_obs_rel_freq pos_obs_freq fore_freq ! i = NaN"
      unfolding fore_freq_def pos_obs_freq_def positives_def by (rule empty_bin_rel_freq)
  qed
  show "BrierScoreReliability_call (BrierScoreReliability_init nm prec bs) y_true_proba y_proba
           = Inr (Fin (1 / real (length y_proba) *
               sum_list (map (\<lambda>(f, c, p). real f * (c - real p / real f)\<^sup>2)
                 (filter (\<lambda>(f, c, p). f \<noteq> 0)
                    (zip fore_freq (zip (centers_of bs) pos_obs_freq))))))"
    unfolding fore_freq_def pos_obs_freq_def positives_def
    by (rule Reliability_call_value [OF inc len ne])
  have "increasing (bins (BrierScoreResolution_init nm' prec' bs))"
    "bins (BrierScoreResolution_init nm' prec' bs) = bs"
    using inc by (simp_all add: BrierScoreResolution_init_def)
  then show "BrierScoreResolution_call (BrierScoreResolution_init nm' prec' bs)
      y_true_proba y_proba
           = Inr (np_div
               (Fin (1 / real (length y_proba) *
                  sum_list (map (\<lambda>(f, p). real f * (real p / real f - climo)\<^sup>2)
                    (filter (\<lambda>(f, p). f \<noteq> 0) (zip fore_freq pos_obs_freq)))))
               (Fin (climo * (1 - climo))))"
    unfolding fore_freq_def pos_obs_freq_def positives_def climo_def
    using Resolution_call_value [of "BrierScoreResolution_init nm' prec' bs", OF _ len ne]
    by simp
qed

lemma sum_list_all_zero:
  "(\<And>x. x \<in> set xs \<Longrightarrow> g x = (0::real)) \<Longrightarrow> sum_list (map g xs) = 0"
  by (induction xs) simp_all

text \<open>
  C9. When the climatology (the mean outcome) is strictly between 0 and 1 and the observed
  relative frequency of every bin with at least one forecast equals it,
  \<^verbatim>\<open>BrierScoreResolution.__call__\<close> returns 0 (bin edges that do not decrease and aligned
  arrays, as the call needs them).
\<close>

theorem Resolution_no_skill:
  fixes y_true_proba y_proba :: "real list" and self :: binned_scorer
  defines "positives \<equiv> map fst (filter snd (zip y_proba (map (\<lambda>t. t = 1) y_true_proba)))"
  defines "fore_freq \<equiv> bin_counts y_proba (bins self)"
  defines "pos_obs_freq \<equiv> bin_counts positives (bins self)"
  assumes inc: "increasing (bins self)" and len: "length y_true_proba = length y_proba"
    and climo: "np_mean (map Fin y_true_proba) = Fin climo"
    and range: "0 < climo" "climo < 1"
    and flat: "list_all2 (\<lambda>f r. f \<noteq> 0 \<longrightarrow> r = Fin climo) fore_freq
                 (pos_obs_rel_freq pos_obs_freq fore_freq)"
  shows "BrierScoreResolution_call self y_true_proba y_proba = Inr (Fin 0)"
proof -
  let ?m = "sum_list y_true_proba / real (length y_proba)"
  have ne: "y_proba \<noteq> []"
  proof
    assume "y_proba = []"
    with len have "np_mean (map Fin y_true_proba) = NaN" by (simp add: np_mean_def)
    with climo show False by simp
  qed
  have "np_mean (map Fin y_true_proba) = Fin ?m"
    using len ne by (simp add: np_mean_def np_sum_Fin)
  with climo have m: "?m = climo" by simp
  have zero: "real f * (real p / real f - climo)\<^sup>2 = 0"
    if "(f, p) \<in> set (zip fore_freq pos_obs_freq)" and "f \<noteq> 0" for f p
  proof -
    from that(1) obtain i where i: "i < length fore_freq" "i < length pos_obs_freq"
      and f: "fore_freq ! i = f" and p: "pos_obs_freq ! i = p"
      by (auto simp: in_set_conv_nth)
    from flat i(1) have "fore_freq ! i \<noteq> 0 \<longrightarrow>
        pos_obs_rel_freq pos_obs_freq fore_freq ! i = Fin climo"
      by (rule list_all2_nthD)
    with that(2) f have "pos_obs_rel_freq pos_obs_freq fore_freq ! i = Fin climo" by simp
    moreover have "pos_obs_rel_freq pos_obs_freq fore_freq ! i = Fin (real p / real f)"
      using i f p that(2) by (simp add: pos_obs_rel_freq_def)
    ultimately show ?thesis by simp
  qed
  have "sum_list (map (\<lambda>(f, p). real f * (real p / real f - climo)\<^sup>2)
          (filter (\<lambda>(f, p). f \<noteq> 0) (zip fore_freq pos_obs_freq))) = 0"
    by (rule sum_list_all_zero) (use zero in auto)
  moreover have "climo * (1 - climo) \<noteq> 0" using range by simp
  ultimately show ?thesis
    using Resolution_call_value [OF inc len ne]
    unfolding m fore_freq_def pos_obs_freq_def positives_def by simp
qed

theorem Resolution_no_skill_witness:
  "BrierScoreResolution_call (BrierScoreResolution_init ''brier_score'' 3 default_bins)
     [0, 1] [5/100, 7/100] = Inr (Fin 0)"
  using Resolution_no_skill
    [of "BrierScoreResolution_init ''brier_score'' 3 default_bins" "[0, 1]" "[5/100, 7/100]" "1/2"]
  by (simp add: BrierScoreResolution_init_def default_bins_eq np_mean_def pos_obs_rel_freq_def)

theorem empty_bins_excluded_witness:
  "pos_obs_rel_freq (bin_counts [95/100] default_bins) (bin_counts [5/100, 95/100] default_bins)
     = [Fin 0, NaN, NaN, NaN, NaN, NaN, NaN, NaN, NaN, Fin 1, NaN]
   \<and> BrierScoreReliability_call (BrierScoreReliability_init ''brier_score'' 3 default_bins)
       [0, 1] [5/100, 95/100] = Inr (Fin (19801 / 40000))
   \<and> BrierScoreResolution_call (BrierScoreResolution_init ''brier_score'' 3 default_bins)
       [0, 1] [5/100, 95/100] = Inr (Fin 1)"
  using empty_bins_excluded
    [of default_bins "[0, 1]" "[5/100, 95/100]" "''brier_score''" 3 "''brier_score''" 3]
  by (simp add: default_bins_eq centers_of_def pos_obs_rel_freq_def power2_eq_square)

end
